theory Spec2Isabelle
  imports Main
begin

section \<open>Python strings\<close>

text \<open>
  A Python \<open>str\<close> is modelled as a \<open>string\<close>, one \<open>char\<close> per code point; code points
  above 255 are outside the model. The flows below only ever compare characters with
  ASCII ones.
\<close>

abbreviation backslash :: char where
  "backslash \<equiv> CHR 0x5C"

text \<open>
  \<open>s.split(c)\<close> for a separator of one character. The result is never empty (the
  empty string splits into one empty field), so the first branch of the \<open>case\<close> is
  never taken.
\<close>

fun py_split :: "char \<Rightarrow> string \<Rightarrow> string list" where
  "py_split c [] = [[]]"
| "py_split c (x # xs) =
     (if x = c then [] # py_split c xs
      else (case py_split c xs of [] \<Rightarrow> [[x]] | w # ws \<Rightarrow> (x # w) # ws))"

text \<open>\<open>sep.join(ws)\<close>.\<close>

fun py_join :: "string \<Rightarrow> string list \<Rightarrow> string" where
  "py_join sep [] = []"
| "py_join sep [w] = w"
| "py_join sep (w # v # ws) = w @ sep @ py_join sep (v # ws)"

text \<open>
  \<open>s.rsplit(c, n)\<close>: scan from the right end, cut at the last occurrence of \<open>c\<close>, at
  most \<open>n\<close> times; what is left of the last cut is the first field.
\<close>

definition before_last :: "char \<Rightarrow> string \<Rightarrow> string" where
  "before_last c s = rev (tl (dropWhile (\<lambda>x. x \<noteq> c) (rev s)))"

definition after_last :: "char \<Rightarrow> string \<Rightarrow> string" where
  "after_last c s = rev (takeWhile (\<lambda>x. x \<noteq> c) (rev s))"

fun py_rsplit :: "char \<Rightarrow> nat \<Rightarrow> string \<Rightarrow> string list" where
  "py_rsplit c 0 s = [s]"
| "py_rsplit c (Suc n) s =
     (if c \<in> set s then py_rsplit c n (before_last c s) @ [after_last c s] else [s])"

text \<open>
  \<open>int(s, 16)\<close> as Python 3 reads a \<open>str\<close>: white space around the literal (tab to
  carriage return, space, and of the code points above 127 in the model, NEL and
  no-break space) is dropped, then an optional sign, an optional \<open>0x\<close> or \<open>0X\<close> (which one underscore may follow),
  then hexadecimal digits, single underscores allowed between two digits. Anything else
  raises \<open>ValueError\<close>, here \<open>None\<close>.
\<close>

definition py_isspace :: "char \<Rightarrow> bool" where
  "py_isspace c = (of_char c \<in> set [9, 10, 11, 12, 13, 32, 133, 160 :: nat])"

definition hex_digit_value :: "char \<Rightarrow> nat option" where
  "hex_digit_value c =
     (let k = (of_char c :: nat) in
      if 48 \<le> k \<and> k \<le> 57 then Some (k - 48)
      else if 97 \<le> k \<and> k \<le> 102 then Some (k - 87)
      else if 65 \<le> k \<and> k \<le> 70 then Some (k - 55)
      else None)"

fun scan_digits :: "char \<Rightarrow> nat \<Rightarrow> string \<Rightarrow> nat option" where
  "scan_digits prev acc [] = (if prev = CHR ''_'' then None else Some acc)"
| "scan_digits prev acc (c # cs) =
     (if c = CHR ''_'' then (if prev = CHR ''_'' then None else scan_digits c acc cs)
      else (case hex_digit_value c of
              None \<Rightarrow> None
            | Some d \<Rightarrow> scan_digits c (16 * acc + d) cs))"

definition py_strip :: "string \<Rightarrow> string" where
  "py_strip s = rev (dropWhile py_isspace (rev (dropWhile py_isspace s)))"

fun strip_sign :: "string \<Rightarrow> bool \<times> string" where
  "strip_sign [] = (False, [])"
| "strip_sign (c # cs) =
     (if c = CHR ''+'' then (False, cs)
      else if c = CHR ''-'' then (True, cs)
      else (False, c # cs))"

fun strip_0x :: "string \<Rightarrow> string" where
  "strip_0x (z # x # cs) =
     (if z = CHR ''0'' \<and> (x = CHR ''x'' \<or> x = CHR ''X'')
      then (case cs of [] \<Rightarrow> [] | u # us \<Rightarrow> if u = CHR ''_'' then us else u # us)
      else z # x # cs)"
| "strip_0x cs = cs"

definition py_int16 :: "string \<Rightarrow> int option" where
  "py_int16 s =
     (case strip_sign (py_strip s) of
        (neg, t) \<Rightarrow>
          (let ds = strip_0x t in
           if ds = [] then None
           else if hd ds = CHR ''_'' then None
           else (case scan_digits (CHR 0x00) 0 ds of
                   None \<Rightarrow> None
                 | Some v \<Rightarrow> Some (if neg then - int v else int v))))"

text \<open>\<open>"%d" % n\<close> for a natural number.\<close>

fun str_nat :: "nat \<Rightarrow> string" where
  "str_nat n =
     (if n < 10 then [''0123456789'' ! n]
      else str_nat (n div 10) @ [''0123456789'' ! (n mod 10)])"

section \<open>Path specifications\<close>

text \<open>
  \<open>rdf_paths.PathSpec\<close> is declared outside this module; the flows read and write its
  \<open>path\<close> only, \<open>pathtype\<close> stands for the fields they carry along untouched.
\<close>

record PathSpec =
  path :: string
  pathtype :: nat

text \<open>
  Modelled from the spec: \<open>PathSpec.Basename\<close> is defined outside this module; it is the
  filename of the raw path, the part after the last forward slash.
\<close>

definition Basename :: "PathSpec \<Rightarrow> string" where
  "Basename ps = after_last (CHR ''/'') (path ps)"

text \<open>
  \<open>_CanonicalizeLegacyWindowsPathSpec\<close>: \<open>canonicalized\<close> starts as a copy of \<open>ps\<close>; the
  slice \<open>ps.path[1:3]\<close> is \<open>take 2 (drop 1 (path ps))\<close>.
\<close>

definition CanonicalizeLegacyWindowsPathSpec :: "PathSpec \<Rightarrow> PathSpec" where
  "CanonicalizeLegacyWindowsPathSpec ps =
     (let canonicalized = ps in
      if take 2 (drop 1 (path ps)) = [CHR '':'', backslash] \<and> CHR ''/'' \<notin> set (path ps)
      then canonicalized\<lparr>path := ''/'' @ py_join ''/'' (py_split backslash (path ps))\<rparr>
      else canonicalized)"

text \<open>
  The same function over an explicit object store (a list of objects, an address is an
  index), to speak about what it does to its argument.
\<close>

type_synonym store = "PathSpec list"

text \<open>
  Modelled from the spec: the constructor \<open>rdf_paths.PathSpec(ps)\<close> is defined outside
  this module; it returns a new value with the fields of \<open>ps\<close>.
\<close>

definition PathSpec_copy :: "store \<Rightarrow> nat \<Rightarrow> nat \<times> store" where
  "PathSpec_copy h a = (length h, h @ [h ! a])"

definition set_path :: "store \<Rightarrow> nat \<Rightarrow> string \<Rightarrow> store" where
  "set_path h a p = h[a := (h ! a)\<lparr>path := p\<rparr>]"

definition CanonicalizeLegacyWindowsPathSpec_store :: "store \<Rightarrow> nat \<Rightarrow> nat \<times> store" where
  "CanonicalizeLegacyWindowsPathSpec_store h ps =
     (case PathSpec_copy h ps of
        (canonicalized, h1) \<Rightarrow>
          if take 2 (drop 1 (path (h1 ! ps))) = [CHR '':'', backslash]
             \<and> CHR ''/'' \<notin> set (path (h1 ! ps))
          then (canonicalized,
                set_path h1 canonicalized
                  (''/'' @ py_join ''/'' (py_split backslash (path (h1 ! ps)))))
          else (canonicalized, h1))"

text \<open>
  The form the specification names: one letter, a colon, a backslash, and no forward
  slash anywhere.
\<close>

definition is_letter :: "char \<Rightarrow> bool" where
  "is_letter c =
     (let k = (of_char c :: nat) in (65 \<le> k \<and> k \<le> 90) \<or> (97 \<le> k \<and> k \<le> 122))"

fun legacy_drive_path :: "string \<Rightarrow> bool" where
  "legacy_drive_path (l # c # b # rest) =
     (is_letter l \<and> c = CHR '':'' \<and> b = backslash \<and> CHR ''/'' \<notin> set (l # c # b # rest))"
| "legacy_drive_path p = False"

text \<open>The form the code tests: any first character, then a colon and a backslash.\<close>

fun drive_like_path :: "string \<Rightarrow> bool" where
  "drive_like_path (l # c # b # rest) =
     (c = CHR '':'' \<and> b = backslash \<and> CHR ''/'' \<notin> set (l # c # b # rest))"
| "drive_like_path p = False"

section \<open>Messages exchanged with the client\<close>

text \<open>
  The protocol messages of \<open>rdf_memory\<close>, \<open>rdf_client\<close> and \<open>rdf_client_fs\<close> are declared
  outside this module; each record has the fields the flows use. A repeated field is a
  list, and a repeated field set to \<open>None\<close> is the empty list. Numbers are Python
  integers: a region's \<open>start\<close> and \<open>size\<close> (here \<open>size_r\<close>, as its \<open>file\<close> is \<open>file_r\<close>) are
  whatever the arithmetic gives.
\<close>

record Process =
  pid :: nat
  name :: string
  exe :: string

record ProcessMemoryError =
  process :: Process
  error :: string

record ProcessMemoryRegion =
  file_r :: PathSpec
  start :: int
  size_r :: int

record YaraMatch =
  rule_name :: string

record YaraProcessScanMatch =
  process :: Process
  match :: "YaraMatch list"

record YaraProcessScanMiss =
  process :: Process

record YaraProcessScanResponse =
  matches :: "YaraProcessScanMatch list"
  errors :: "ProcessMemoryError list"
  misses :: "YaraProcessScanMiss list"

record YaraProcessScanRequest =
  yara_signature :: string
  process_regex :: string
  dump_process_on_match :: bool
  include_errors_in_results :: bool
  include_misses_in_results :: bool
  skip_special_regions :: bool
  skip_mapped_files :: bool
  skip_shared_regions :: bool
  skip_executable_regions :: bool
  skip_readonly_regions :: bool

record YaraProcessDumpArgs =
  pids :: "nat list"
  process_regex :: string
  dump_all_processes :: bool
  skip_special_regions :: bool
  skip_mapped_files :: bool
  skip_shared_regions :: bool
  skip_executable_regions :: bool
  skip_readonly_regions :: bool

record YaraProcessDumpInformation =
  process :: Process
  dump_files :: "PathSpec list"
  memory_regions :: "ProcessMemoryRegion list"

record YaraProcessDumpResponse =
  dumped_processes :: "YaraProcessDumpInformation list"
  errors :: "ProcessMemoryError list"

record StatEntry =
  pathspec :: PathSpec
  st_size :: nat

record MultiGetFileArgs =
  pathspecs :: "PathSpec list"
  file_size :: nat
  use_external_stores :: bool

section \<open>The flow runtime, as far as the flows touch it\<close>

text \<open>
  \<open>flow_base.FlowBase\<close> is outside this module. A flow's effects are the replies it
  sends, the calls it issues (to the client, or to a child flow) with the state that
  will receive the answer, and the lines it logs; a state method that issues no call
  leaves nothing outstanding. An exception is returned next to the state reached when
  it was raised. A status is modelled by its text.
\<close>

datatype error =
    FlowError string
  | ValueError string
  | AttributeError string
  | TypeError string
  | OtherError string

datatype reply =
    ScanMatch YaraProcessScanMatch
  | ScanError ProcessMemoryError
  | ScanMiss YaraProcessScanMiss
  | DumpResponse YaraProcessDumpResponse
  | FetchedFile StatEntry

datatype payload =
    ScanRequest YaraProcessScanRequest
  | DumpArgs YaraProcessDumpArgs
  | TempFile PathSpec
  | GetFiles MultiGetFileArgs

datatype call =
    ClientCall string payload string
  | FlowCall string payload string

record FlowState =
  replies :: "reply list"
  calls :: "call list"
  logs :: "string list"

record 'a Responses =
  success :: bool
  status :: string
  items :: "'a list"

definition SendReply :: "FlowState \<Rightarrow> reply \<Rightarrow> FlowState" where
  "SendReply st r = st\<lparr>replies := replies st @ [r]\<rparr>"

definition CallClient :: "FlowState \<Rightarrow> string \<Rightarrow> payload \<Rightarrow> string \<Rightarrow> FlowState" where
  "CallClient st stub request next_state =
     st\<lparr>calls := calls st @ [ClientCall stub request next_state]\<rparr>"

definition CallFlow :: "FlowState \<Rightarrow> string \<Rightarrow> payload \<Rightarrow> string \<Rightarrow> FlowState" where
  "CallFlow st flow_name args next_state =
     st\<lparr>calls := calls st @ [FlowCall flow_name args next_state]\<rparr>"

text \<open>
  \<open>format_str % ()\<close>: the format operator of Python 3 on a \<open>str\<close>, with no argument
  to give. After a percent sign come flags, a width, a precision and a length
  modifier, all optional, and a conversion character. With nothing to convert, only a
  second percent sign right after the first goes through, and it writes one percent
  sign; a mapping key, a \<open>*\<close>, or any conversion character raises \<open>TypeError\<close>, and a
  directive cut short by the end of the string, or a width or precision beyond the
  machine's range, raises \<open>ValueError\<close>. The mode says how far into a directive the
  scan is.
\<close>

datatype fmt_mode = Text | Start | Flags | Width nat | Dot | Prec nat | Conv

definition is_digit :: "char \<Rightarrow> bool" where
  "is_digit c = (48 \<le> (of_char c :: nat) \<and> (of_char c :: nat) \<le> 57)"

definition digit_val :: "char \<Rightarrow> nat" where
  "digit_val c = of_char c - 48"

definition not_enough_arguments :: error where
  "not_enough_arguments = TypeError ''not enough arguments for format string''"

definition conv_step :: "char \<Rightarrow> error + fmt_mode option" where
  "conv_step c = Inl not_enough_arguments"

definition len_step :: "char \<Rightarrow> error + fmt_mode option" where
  "len_step c =
     (if c = CHR ''h'' \<or> c = CHR ''l'' \<or> c = CHR ''L'' then Inr (Some Conv)
      else conv_step c)"

definition prec_step :: "nat \<Rightarrow> char \<Rightarrow> error + fmt_mode option" where
  "prec_step p c =
     (if is_digit c
      then (if p > (2147483647 - digit_val c) div 10
            then Inl (ValueError ''precision too big'')
            else Inr (Some (Prec (p * 10 + digit_val c))))
      else len_step c)"

definition dot_step :: "char \<Rightarrow> error + fmt_mode option" where
  "dot_step c =
     (if c = CHR ''*'' then Inl not_enough_arguments
      else if is_digit c then Inr (Some (Prec (digit_val c)))
      else len_step c)"

definition prec_start_step :: "char \<Rightarrow> error + fmt_mode option" where
  "prec_start_step c = (if c = CHR ''.'' then Inr (Some Dot) else len_step c)"

definition width_step :: "nat \<Rightarrow> char \<Rightarrow> error + fmt_mode option" where
  "width_step w c =
     (if is_digit c
      then (if w > (9223372036854775807 - digit_val c) div 10
            then Inl (ValueError ''width too big'')
            else Inr (Some (Width (w * 10 + digit_val c))))
      else prec_start_step c)"

definition width_start_step :: "char \<Rightarrow> error + fmt_mode option" where
  "width_start_step c =
     (if c = CHR ''*'' then Inl not_enough_arguments
      else if is_digit c then Inr (Some (Width (digit_val c)))
      else prec_start_step c)"

definition flags_step :: "char \<Rightarrow> error + fmt_mode option" where
  "flags_step c =
     (if c = CHR ''-'' \<or> c = CHR ''+'' \<or> c = CHR '' '' \<or> c = CHR ''#'' \<or> c = CHR ''0''
      then Inr (Some Flags)
      else width_start_step c)"

definition start_step :: "char \<Rightarrow> error + fmt_mode option" where
  "start_step c =
     (if c = CHR ''%'' then Inr None
      else if c = CHR ''('' then Inl (TypeError ''format requires a mapping'')
      else flags_step c)"

text \<open>
  One character inside a directive: an exception, the next mode, or \<open>None\<close> when the
  directive ends here and writes a percent sign.
\<close>

fun fmt_step :: "fmt_mode \<Rightarrow> char \<Rightarrow> error + fmt_mode option" where
  "fmt_step Text c = Inr (Some Text)"
| "fmt_step Start c = start_step c"
| "fmt_step Flags c = flags_step c"
| "fmt_step (Width w) c = width_step w c"
| "fmt_step Dot c = dot_step c"
| "fmt_step (Prec p) c = prec_step p c"
| "fmt_step Conv c = conv_step c"

fun py_format :: "fmt_mode \<Rightarrow> string \<Rightarrow> string \<Rightarrow> error + string" where
  "py_format m [] out =
     (if m = Text then Inr out else Inl (ValueError ''incomplete format''))"
| "py_format m (c # cs) out =
     (if m = Text
      then (if c = CHR ''%'' then py_format Start cs out else py_format Text cs (out @ [c]))
      else (case fmt_step m c of
              Inl e \<Rightarrow> Inl e
            | Inr None \<Rightarrow> py_format Text cs (out @ ''%'')
            | Inr (Some m') \<Rightarrow> py_format m' cs out))"

definition percent_no_args :: "string \<Rightarrow> error + string" where
  "percent_no_args format_str = py_format Text format_str []"

text \<open>
  Modelled from the spec: \<open>FlowBase.Log\<close> is defined outside this module. The
  specification has a line logged; the runtime takes a format string and its arguments,
  renders \<open>format_str % args\<close> and appends the result to the flow's log. The flows
  below pass the line alone, so the arguments are the empty tuple.
\<close>

definition Log :: "FlowState \<Rightarrow> string \<Rightarrow> error option \<times> FlowState" where
  "Log st format_str =
     (case percent_no_args format_str of
        Inl e \<Rightarrow> (Some e, st)
      | Inr message \<Rightarrow> (None, st\<lparr>logs := logs st @ [message]\<rparr>))"

text \<open>
  Modelled from the spec: \<open>Responses.First\<close> is defined outside this module; it is the
  first unit of the batch, \<open>None\<close> for an empty batch.
\<close>

definition First :: "'a list \<Rightarrow> 'a option" where
  "First xs = (case xs of [] \<Rightarrow> None | x # _ \<Rightarrow> Some x)"

section \<open>Migration of legacy dump files\<close>

text \<open>
  Tuple unpacking of a list raises \<open>ValueError\<close> unless the list has exactly as many
  elements as there are targets.
\<close>

fun unpack2 :: "string list \<Rightarrow> error + string \<times> string" where
  "unpack2 [a, b] = Inr (a, b)"
| "unpack2 xs =
     Inl (ValueError
       (if length xs < 2
        then ''not enough values to unpack (expected 2, got '' @ str_nat (length xs) @ '')''
        else ''too many values to unpack (expected 2)''))"

fun unpack4 :: "string list \<Rightarrow> error + string \<times> string \<times> string \<times> string" where
  "unpack4 [a, b, c, d] = Inr (a, b, c, d)"
| "unpack4 xs =
     Inl (ValueError
       (if length xs < 4
        then ''not enough values to unpack (expected 4, got '' @ str_nat (length xs) @ '')''
        else ''too many values to unpack (expected 4)''))"

text \<open>
  \<open>int(s, 16)\<close> with its exception; the interpreter's message goes on with the literal
  it was given.
\<close>

definition int16 :: "string \<Rightarrow> error + int" where
  "int16 s =
     (case py_int16 s of
        None \<Rightarrow> Inl (ValueError ''invalid literal for int() with base 16'')
      | Some v \<Rightarrow> Inr v)"

text \<open>
  The body of the inner loop of \<open>_MigrateLegacyDumpFilesToMemoryAreas\<close>: one dump file
  of \<open>info\<close>, which either raises or appends one region to \<open>info.memory_regions\<close>.
\<close>

definition MigrateDumpFile ::
  "YaraProcessDumpInformation \<Rightarrow> PathSpec \<Rightarrow> error + YaraProcessDumpInformation" where
  "MigrateDumpFile info dump_file =
     (case unpack2 (py_rsplit (CHR ''.'') 1 (Basename dump_file)) of
        Inl e \<Rightarrow> Inl e
      | Inr (path_without_ext, _) \<Rightarrow>
          (case unpack4 (py_rsplit (CHR ''_'') 3 path_without_ext) of
             Inl e \<Rightarrow> Inl e
           | Inr (_, _, start_s, end_s) \<Rightarrow>
               (case int16 start_s of
                  Inl e \<Rightarrow> Inl e
                | Inr start_v \<Rightarrow>
                    (case int16 end_s of
                       Inl e \<Rightarrow> Inl e
                     | Inr end_v \<Rightarrow>
                         Inr (info\<lparr>memory_regions := memory_regions info @
                                [\<lparr>file_r = CanonicalizeLegacyWindowsPathSpec dump_file,
                                  start = start_v,
                                  size_r = end_v - start_v\<rparr>]\<rparr>)))))"

text \<open>
  The loops mutate the response in place, so each returns the object as it stands when
  the loop ends or an exception leaves it: the exception, if any, and the state reached.
\<close>

fun MigrateDumpFiles ::
  "YaraProcessDumpInformation \<Rightarrow> PathSpec list \<Rightarrow> error option \<times> YaraProcessDumpInformation" where
  "MigrateDumpFiles info [] = (None, info)"
| "MigrateDumpFiles info (dump_file # rest) =
     (case MigrateDumpFile info dump_file of
        Inl e \<Rightarrow> (Some e, info)
      | Inr info' \<Rightarrow> MigrateDumpFiles info' rest)"

definition MigrateInfo ::
  "YaraProcessDumpInformation \<Rightarrow> error option \<times> YaraProcessDumpInformation" where
  "MigrateInfo info =
     (case MigrateDumpFiles info (dump_files info) of
        (Some e, info') \<Rightarrow> (Some e, info')
      | (None, info') \<Rightarrow> (None, info'\<lparr>dump_files := []\<rparr>))"

fun MigrateProcesses ::
  "YaraProcessDumpInformation list \<Rightarrow> error option \<times> YaraProcessDumpInformation list" where
  "MigrateProcesses [] = (None, [])"
| "MigrateProcesses (info # rest) =
     (case MigrateInfo info of
        (Some e, info') \<Rightarrow> (Some e, info' # rest)
      | (None, info') \<Rightarrow>
          (case MigrateProcesses rest of (r, rest') \<Rightarrow> (r, info' # rest')))"

definition MigrateLegacyDumpFilesToMemoryAreas ::
  "YaraProcessDumpResponse \<Rightarrow> error option \<times> YaraProcessDumpResponse" where
  "MigrateLegacyDumpFilesToMemoryAreas response =
     (case MigrateProcesses (dumped_processes response) of
        (r, infos) \<Rightarrow> (r, response\<lparr>dumped_processes := infos\<rparr>))"

text \<open>
  The encoding as the code reads it, said with the full split at the underscores: the
  filename has an extension, without it there are at least four fields, and
  \<open>int(s, 16)\<close> takes each of the last two. That is more than the digits alone: a
  sign, a \<open>0x\<close> in front and white space around are taken too.
\<close>

definition has_extension :: "PathSpec \<Rightarrow> bool" where
  "has_extension dump_file = (CHR ''.'' \<in> set (Basename dump_file))"

definition legacy_fields :: "PathSpec \<Rightarrow> string list" where
  "legacy_fields dump_file =
     py_split (CHR ''_'') (before_last (CHR ''.'') (Basename dump_file))"

definition start_field :: "PathSpec \<Rightarrow> string" where
  "start_field dump_file = legacy_fields dump_file ! (length (legacy_fields dump_file) - 2)"

definition end_field :: "PathSpec \<Rightarrow> string" where
  "end_field dump_file = legacy_fields dump_file ! (length (legacy_fields dump_file) - 1)"

definition well_formed :: "PathSpec \<Rightarrow> bool" where
  "well_formed dump_file =
     (has_extension dump_file \<and> 4 \<le> length (legacy_fields dump_file)
      \<and> py_int16 (start_field dump_file) \<noteq> None
      \<and> py_int16 (end_field dump_file) \<noteq> None)"

definition startHex :: "PathSpec \<Rightarrow> int" where
  "startHex dump_file = the (py_int16 (start_field dump_file))"

definition endHex :: "PathSpec \<Rightarrow> int" where
  "endHex dump_file = the (py_int16 (end_field dump_file))"

definition legacy_region :: "PathSpec \<Rightarrow> ProcessMemoryRegion" where
  "legacy_region dump_file =
     \<lparr>file_r = CanonicalizeLegacyWindowsPathSpec dump_file,
      start = startHex dump_file,
      size_r = endHex dump_file - startHex dump_file\<rparr>"



definition migrated :: "YaraProcessDumpInformation \<Rightarrow> YaraProcessDumpInformation" where
  "migrated info =
     info\<lparr>memory_regions := memory_regions info @ map legacy_region (dump_files info),
          dump_files := []\<rparr>"

section \<open>YaraProcessScan\<close>

text \<open>
  \<open>GetRules\<close> (the signature compiler) and \<open>re.compile\<close> are outside this module and
  are parameters: \<open>GetRules\<close> gives the rules or raises, \<open>re_compile\<close> gives the
  exception it raises, if any. \<open>logging.debug\<close> writes to the process log, not to the
  flow, and is left out.
\<close>

definition YaraProcessScan_Start ::
  "(string \<Rightarrow> error + 'rule list) \<Rightarrow> (string \<Rightarrow> error option) \<Rightarrow>
   YaraProcessScanRequest \<Rightarrow> FlowState \<Rightarrow> error option \<times> FlowState" where
  "YaraProcessScan_Start GetRules re_compile args st =
     (case GetRules (yara_signature args) of
        Inl e \<Rightarrow> (Some e, st)
      | Inr rules \<Rightarrow>
          if rules = []
          then (Some (FlowError ''No rules found in the signature specification.''), st)
          else (case (if YaraProcessScanRequest.process_regex args \<noteq> []
                      then re_compile (YaraProcessScanRequest.process_regex args)
                      else None) of
                  Some e \<Rightarrow> (Some e, st)
                | None \<Rightarrow>
                    (None, CallClient st ''YaraProcessScan'' (ScanRequest args)
                             ''ProcessScanResults'')))"

text \<open>
  \<open>pids_to_dump\<close> is a Python set: here a list without duplicates, in the order of
  first insertion. The order in which \<open>list(pids_to_dump)\<close> enumerates a set is not
  fixed by Python, and nothing below depends on it.
\<close>

definition set_add :: "nat \<Rightarrow> nat list \<Rightarrow> nat list" where
  "set_add x xs = (if x \<in> set xs then xs else xs @ [x])"

definition scan_match ::
  "YaraProcessScanRequest \<Rightarrow> YaraProcessScanMatch \<Rightarrow> FlowState \<times> nat list \<Rightarrow> FlowState \<times> nat list" where
  "scan_match args m acc =
     (case acc of
        (st, pids_to_dump) \<Rightarrow>
          (SendReply st (ScanMatch m),
           if dump_process_on_match args
           then set_add (pid (YaraProcessScanMatch.process m)) pids_to_dump
           else pids_to_dump))"

definition scan_response ::
  "YaraProcessScanRequest \<Rightarrow> YaraProcessScanResponse \<Rightarrow> FlowState \<times> nat list \<Rightarrow> FlowState \<times> nat list" where
  "scan_response args response acc =
     (case fold (scan_match args) (matches response) acc of
        (st1, pids_to_dump) \<Rightarrow>
          (let st2 = (if include_errors_in_results args
                      then fold (\<lambda>e st. SendReply st (ScanError e))
                             (YaraProcessScanResponse.errors response) st1
                      else st1);
               st3 = (if include_misses_in_results args
                      then fold (\<lambda>m st. SendReply st (ScanMiss m)) (misses response) st2
                      else st2)
           in (st3, pids_to_dump)))"

definition ProcessScanResults ::
  "YaraProcessScanRequest \<Rightarrow> FlowState \<Rightarrow> YaraProcessScanResponse Responses \<Rightarrow>
   error option \<times> FlowState" where
  "ProcessScanResults args st responses =
     (if \<not> success responses then (Some (FlowError (status responses)), st)
      else (case fold (scan_response args) (items responses) (st, []) of
              (st', pids_to_dump) \<Rightarrow>
                if pids_to_dump \<noteq> []
                then (None,
                      CallFlow st' ''DumpProcessMemory''
                        (DumpArgs
                           \<lparr>pids = pids_to_dump,
                            process_regex = [],
                            dump_all_processes = False,
                            skip_special_regions =
                              YaraProcessScanRequest.skip_special_regions args,
                            skip_mapped_files =
                              YaraProcessScanRequest.skip_mapped_files args,
                            skip_shared_regions =
                              YaraProcessScanRequest.skip_shared_regions args,
                            skip_executable_regions =
                              YaraProcessScanRequest.skip_executable_regions args,
                            skip_readonly_regions =
                              YaraProcessScanRequest.skip_readonly_regions args\<rparr>)
                        ''CheckDumpProcessMemoryResults'')
                else (None, st')))"

definition CheckDumpProcessMemoryResults ::
  "FlowState \<Rightarrow> reply Responses \<Rightarrow> error option \<times> FlowState" where
  "CheckDumpProcessMemoryResults st responses =
     (if \<not> success responses then (Some (FlowError (status responses)), st)
      else (None, fold (\<lambda>response st'. SendReply st' response) (items responses) st))"

section \<open>DumpProcessMemory\<close>

definition DumpProcessMemory_Start ::
  "(string \<Rightarrow> error option) \<Rightarrow> YaraProcessDumpArgs \<Rightarrow> FlowState \<Rightarrow> error option \<times> FlowState" where
  "DumpProcessMemory_Start re_compile args st =
     (case (if process_regex args \<noteq> [] then re_compile (process_regex args) else None) of
        Some e \<Rightarrow> (Some e, st)
      | None \<Rightarrow>
          if \<not> (dump_all_processes args \<or> pids args \<noteq> [] \<or> process_regex args \<noteq> [])
          then (Some (ValueError ''No processes to dump specified.''), st)
          else (None, CallClient st ''YaraProcessDump'' (DumpArgs args) ''ProcessResults''))"

text \<open>
  The two lines \<open>ProcessResults\<close> builds with \<open>%\<close> and then hands to \<open>Log\<close> as its
  format string.
\<close>

definition error_line :: "ProcessMemoryError \<Rightarrow> string" where
  "error_line e =
     (let p = ProcessMemoryError.process e in
      ''Error dumping process '' @ name p @ '' (pid '' @ str_nat (pid p) @ ''): ''
      @ error e)"

definition process_line :: "YaraProcessDumpInformation \<Rightarrow> string" where
  "process_line dumped_process =
     (let p = YaraProcessDumpInformation.process dumped_process in
      ''Getting '' @ str_nat (length (memory_regions dumped_process))
      @ '' dump files for process '' @ name p
      @ '' (pid '' @ str_nat (pid p) @ '').'')"

text \<open>The loop over \<open>response.errors\<close>; it ends at the first line \<open>Log\<close> raises on.\<close>

fun log_errors :: "ProcessMemoryError list \<Rightarrow> FlowState \<Rightarrow> error option \<times> FlowState" where
  "log_errors [] st = (None, st)"
| "log_errors (e # rest) st =
     (case Log st (error_line e) of
        (Some x, st') \<Rightarrow> (Some x, st')
      | (None, st') \<Rightarrow> log_errors rest st')"

text \<open>
  The loop over \<open>response.dumped_processes\<close>, with \<open>dump_files_to_get\<close> as it grows.
\<close>

fun collect_files ::
  "YaraProcessDumpInformation list \<Rightarrow> FlowState \<Rightarrow> PathSpec list \<Rightarrow>
   error option \<times> FlowState \<times> PathSpec list" where
  "collect_files [] st dump_files_to_get = (None, st, dump_files_to_get)"
| "collect_files (dumped_process # rest) st dump_files_to_get =
     (case Log st (process_line dumped_process) of
        (Some x, st') \<Rightarrow> (Some x, st', dump_files_to_get)
      | (None, st') \<Rightarrow>
          collect_files rest st'
            (fold (\<lambda>region files. files @ [file_r region])
               (memory_regions dumped_process) dump_files_to_get))"

definition ProcessResults ::
  "FlowState \<Rightarrow> YaraProcessDumpResponse Responses \<Rightarrow> error option \<times> FlowState" where
  "ProcessResults st responses =
     (if \<not> success responses then (Some (FlowError (status responses)), st)
      else (case First (items responses) of
              None \<Rightarrow>
                (Some (AttributeError
                   ''NoneType object has no attribute dumped_processes''), st)
            | Some response0 \<Rightarrow>
                (case MigrateLegacyDumpFilesToMemoryAreas response0 of
                   (Some e, _) \<Rightarrow> (Some e, st)
                 | (None, response) \<Rightarrow>
                     (case log_errors (YaraProcessDumpResponse.errors response)
                             (SendReply st (DumpResponse response)) of
                        (Some e, st2) \<Rightarrow> (Some e, st2)
                      | (None, st2) \<Rightarrow>
                          (case collect_files (dumped_processes response) st2 [] of
                             (Some e, st3, _) \<Rightarrow> (Some e, st3)
                           | (None, st3, dump_files_to_get) \<Rightarrow>
                               if dump_files_to_get = []
                               then Log st3 ''No memory dumped, exiting.''
                               else (None,
                                     CallFlow st3 ''MultiGetFile''
                                       (GetFiles
                                          \<lparr>pathspecs = dump_files_to_get,
                                           file_size = 1024 * 1024 * 1024,
                                           use_external_stores = False\<rparr>)
                                       ''DeleteFiles''))))))"

definition delete_file :: "StatEntry \<Rightarrow> FlowState \<Rightarrow> FlowState" where
  "delete_file response st =
     CallClient (SendReply st (FetchedFile response)) ''DeleteGRRTempFiles''
       (TempFile (pathspec response)) ''LogDeleteFiles''"

definition DeleteFiles ::
  "FlowState \<Rightarrow> StatEntry Responses \<Rightarrow> error option \<times> FlowState" where
  "DeleteFiles st responses =
     (if \<not> success responses then (Some (FlowError (status responses)), st)
      else (None, fold delete_file (items responses) st))"

definition LogDeleteFiles ::
  "FlowState \<Rightarrow> 'a Responses \<Rightarrow> error option \<times> FlowState" where
  "LogDeleteFiles st responses =
     (if \<not> success responses
      then (Some (FlowError (''Could not delete file: '' @ status responses)), st)
      else (None, st))"

section \<open>What the specification names\<close>

text \<open>
  The file locators of a dump response, flattened across its processes in order, and
  the pids of all matches of a scan, across its response units in order.
\<close>

definition file_locators :: "YaraProcessDumpResponse \<Rightarrow> PathSpec list" where
  "file_locators response =
     concat (map (\<lambda>p. map file_r (memory_regions p)) (dumped_processes response))"

text \<open>
  The lines \<open>ProcessResults\<close> logs for a migrated unit, in the order it logs them, and
  what the log shows for a line, if \<open>Log\<close> takes it.
\<close>

definition log_lines :: "YaraProcessDumpResponse \<Rightarrow> string list" where
  "log_lines response =
     map error_line (YaraProcessDumpResponse.errors response)
     @ map process_line (dumped_processes response)"

definition logged :: "string \<Rightarrow> string option" where
  "logged line = (case percent_no_args line of Inl e \<Rightarrow> None | Inr message \<Rightarrow> Some message)"

definition matched_pids :: "YaraProcessScanResponse list \<Rightarrow> nat list" where
  "matched_pids rs =
     map (\<lambda>m. pid (YaraProcessScanMatch.process m)) (concat (map matches rs))"

section \<open>Example inputs\<close>

abbreviation windows_path :: string where
  "windows_path \<equiv> ''C:'' @ [backslash] @ ''Windows'' @ [backslash] @ ''GRR''"

abbreviation digit_path :: string where
  "digit_path \<equiv> ''1:'' @ [backslash] @ ''x''"

abbreviation example_dump_file :: PathSpec where
  "example_dump_file \<equiv> \<lparr>path = ''proc_1234_1a00_2000.tmp'', pathtype = 0\<rparr>"

abbreviation short_dump_file :: PathSpec where
  "short_dump_file \<equiv> \<lparr>path = ''core.tmp'', pathtype = 0\<rparr>"

abbreviation example_process :: Process where
  "example_process \<equiv> \<lparr>pid = 1234, name = ''proc'', exe = ''/bin/proc''\<rparr>"

abbreviation example_response :: YaraProcessDumpResponse where
  "example_response \<equiv>
     \<lparr>dumped_processes =
        [\<lparr>process = example_process, dump_files = [example_dump_file],
          memory_regions = []\<rparr>],
      errors = []\<rparr>"

abbreviation example_migrated_response :: YaraProcessDumpResponse where
  "example_migrated_response \<equiv>
     \<lparr>dumped_processes =
        [\<lparr>process = example_process, dump_files = [],
          memory_regions =
            [\<lparr>file_r = example_dump_file, start = 0x1a00, size_r = 0x600\<rparr>]\<rparr>],
      errors = []\<rparr>"

abbreviation partial_response :: YaraProcessDumpResponse where
  "partial_response \<equiv>
     \<lparr>dumped_processes =
        [\<lparr>process = example_process, dump_files = [example_dump_file, short_dump_file],
          memory_regions = []\<rparr>],
      errors = []\<rparr>"



abbreviation percent_response :: YaraProcessDumpResponse where
  "percent_response \<equiv>
     \<lparr>dumped_processes =
        [\<lparr>process = example_process, dump_files = [],
          memory_regions =
            [\<lparr>file_r = example_dump_file, start = 0x1a00, size_r = 0x600\<rparr>]\<rparr>],
      errors =
        [\<lparr>ProcessMemoryError.process = \<lparr>pid = 7, name = ''svc'', exe = ''/bin/svc''\<rparr>,
          error = ''100% bad''\<rparr>]\<rparr>"

abbreviation example_scan_args :: YaraProcessScanRequest where
  "example_scan_args \<equiv>
     \<lparr>yara_signature = ''rule r { condition: true }'', process_regex = [],
      dump_process_on_match = True, include_errors_in_results = False,
      include_misses_in_results = False, skip_special_regions = True,
      skip_mapped_files = False, skip_shared_regions = True,
      skip_executable_regions = False, skip_readonly_regions = True\<rparr>"

abbreviation example_match :: "nat \<Rightarrow> YaraProcessScanMatch" where
  "example_match n \<equiv>
     \<lparr>YaraProcessScanMatch.process = \<lparr>pid = n, name = ''svc'', exe = ''/bin/svc''\<rparr>,
      match = [\<lparr>rule_name = ''r''\<rparr>]\<rparr>"

abbreviation example_scan_responses :: "YaraProcessScanResponse Responses" where
  "example_scan_responses \<equiv>
     \<lparr>success = True, status = [],
      items = [\<lparr>matches = [example_match 10, example_match 20],
                YaraProcessScanResponse.errors = [], misses = []\<rparr>,
               \<lparr>matches = [example_match 10],
                YaraProcessScanResponse.errors = [], misses = []\<rparr>]\<rparr>"

abbreviation empty_state :: FlowState where
  "empty_state \<equiv> \<lparr>replies = [], calls = [], logs = []\<rparr>"

abbreviation two_deletions_state :: FlowState where
  "two_deletions_state \<equiv>
     \<lparr>replies = [],
      calls = [ClientCall ''DeleteGRRTempFiles''
                 (TempFile \<lparr>path = ''/tmp/a'', pathtype = 0\<rparr>) ''LogDeleteFiles'',
               ClientCall ''DeleteGRRTempFiles''
                 (TempFile \<lparr>path = ''/tmp/b'', pathtype = 0\<rparr>) ''LogDeleteFiles''],
      logs = []\<rparr>"

section \<open>Splitting and joining\<close>

lemma py_split_nonempty: "py_split c s \<noteq> []"
  by (induction s) (simp_all split: list.splits)

lemma py_join_split:
  "py_join [d] (py_split c s) = map (\<lambda>x. if x = c then d else x) s"
proof (induction s)
  case Nil
  show ?case by simp
next
  case (Cons x xs)
  obtain w ws where w: "py_split c xs = w # ws"
    using py_split_nonempty [of c xs] by (cases "py_split c xs") auto
  show ?case
  proof (cases "x = c")
    case True
    then show ?thesis using Cons w by simp
  next
    case False
    then show ?thesis using Cons w by (cases ws) auto
  qed
qed

lemma py_join_split_id: "py_join [c] (py_split c s) = s"
proof -
  have "map (\<lambda>x. if x = c then c else x) s = s" by (induction s) simp_all
  then show ?thesis by (simp add: py_join_split)
qed

lemma py_split_no_sep: "c \<notin> set s \<Longrightarrow> py_split c s = [s]"
  by (induction s) auto

lemma py_split_append:
  "py_split c (a @ c # b) = py_split c a @ py_split c b"
proof (induction a)
  case Nil
  show ?case by simp
next
  case (Cons x a)
  obtain w ws where w: "py_split c a = w # ws"
    using py_split_nonempty [of c a] by (cases "py_split c a") auto
  show ?case using Cons w by (cases "x = c") simp_all
qed

lemma last_decomp:
  assumes "c \<in> set s"
  shows "s = before_last c s @ c # after_last c s" and "c \<notin> set (after_last c s)"
proof -
  let ?t = "takeWhile (\<lambda>x. x \<noteq> c) (rev s)"
  let ?d = "dropWhile (\<lambda>x. x \<noteq> c) (rev s)"
  have "c \<in> set (rev s)" using assms by simp
  then have ne: "?d \<noteq> []" by (simp add: dropWhile_eq_Nil_conv)
  then have h: "hd ?d = c" using hd_dropWhile [of "\<lambda>x. x \<noteq> c" "rev s"] by simp
  have "rev s = ?t @ ?d" by simp
  also have "?d = c # tl ?d" using ne h by (cases ?d) auto
  finally have "rev (rev s) = rev (?t @ c # tl ?d)" by simp
  then show "s = before_last c s @ c # after_last c s"
    by (simp add: before_last_def after_last_def)
  show "c \<notin> set (after_last c s)"
    using set_takeWhileD [of c "\<lambda>x. x \<noteq> c" "rev s"] by (auto simp: after_last_def)
qed

lemma py_split_last:
  assumes "c \<in> set s"
  shows "py_split c s = py_split c (before_last c s) @ [after_last c s]"
proof -
  have "py_split c s = py_split c (before_last c s @ c # after_last c s)"
    using last_decomp(1) [OF assms] by simp
  also have "\<dots> = py_split c (before_last c s) @ py_split c (after_last c s)"
    by (rule py_split_append)
  finally show ?thesis using py_split_no_sep [OF last_decomp(2) [OF assms]] by simp
qed

text \<open>
  \<open>rsplit\<close> with a bound against the full split: the last \<open>n\<close> fields are those of
  \<open>split\<close>, and the first one is what \<open>split\<close> cuts further.
\<close>

lemma py_rsplit_fields:
  "py_rsplit c n s =
     (let fs = py_split c s; k = length fs in
      if k \<le> Suc n then fs else py_join [c] (take (k - n) fs) # drop (k - n) fs)"
proof (induction n arbitrary: s)
  case 0
  have "py_split c s \<noteq> []" by (rule py_split_nonempty)
  then have k: "1 \<le> length (py_split c s)" by (cases "py_split c s") auto
  show ?case
  proof (cases "length (py_split c s) \<le> 1")
    case True
    then obtain w where w: "py_split c s = [w]"
      using k by (cases "py_split c s") auto
    then have "py_join [c] (py_split c s) = w" by simp
    then have "w = s" by (simp add: py_join_split_id)
    then show ?thesis using True w by (simp add: Let_def)
  next
    case False
    then show ?thesis by (simp add: Let_def py_join_split_id)
  qed
next
  case (Suc n)
  show ?case
  proof (cases "c \<in> set s")
    case False
    then show ?thesis by (simp add: Let_def py_split_no_sep)
  next
    case True
    let ?a = "before_last c s"
    let ?fa = "py_split c ?a"
    have fs: "py_split c s = ?fa @ [after_last c s]" by (rule py_split_last [OF True])
    have r: "py_rsplit c (Suc n) s = py_rsplit c n ?a @ [after_last c s]"
      using True by simp
    show ?thesis
    proof (cases "length ?fa \<le> Suc n")
      case True
      then show ?thesis using r fs Suc [of ?a] by (simp add: Let_def)
    next
      case False
      then have "length ?fa - n \<le> length ?fa" by simp
      then show ?thesis using False r fs Suc [of ?a]
        by (simp add: Let_def Suc_diff_le)
    qed
  qed
qed

lemma py_rsplit_ext:
  "py_rsplit c 1 b = (if c \<in> set b then [before_last c b, after_last c b] else [b])"
  by simp

lemma list_of_length_3: "length xs = 3 \<Longrightarrow> xs = [xs ! 0, xs ! 1, xs ! 2]"
  by (auto simp: length_Suc_conv numeral_3_eq_3)

lemma list_of_length_4: "length xs = 4 \<Longrightarrow> xs = [xs ! 0, xs ! 1, xs ! 2, xs ! 3]"
  by (auto simp: length_Suc_conv numeral_eq_Suc)


lemma py_rsplit_3_long:
  assumes "4 \<le> length (py_split c s)"
  shows "\<exists>a b. py_rsplit c 3 s =
           [a, b, py_split c s ! (length (py_split c s) - 2),
                  py_split c s ! (length (py_split c s) - 1)]"
proof (cases "length (py_split c s) = 4")
  case True
  then have "py_rsplit c 3 s = py_split c s" by (simp add: py_rsplit_fields Let_def)
  moreover have "py_split c s =
      [py_split c s ! 0, py_split c s ! 1, py_split c s ! 2, py_split c s ! 3]"
    by (rule list_of_length_4 [OF True])
  moreover have "length (py_split c s) - 2 = 2" "length (py_split c s) - 1 = 3"
    using True by simp_all
  ultimately show ?thesis by metis
next
  case False
  let ?fs = "py_split c s"
  let ?k = "length ?fs"
  from False assms have k: "4 < ?k" by simp
  then have r: "py_rsplit c 3 s = py_join [c] (take (?k - 3) ?fs) # drop (?k - 3) ?fs"
    by (simp add: py_rsplit_fields Let_def)
  have l: "length (drop (?k - 3) ?fs) = 3" using k by simp
  have "drop (?k - 3) ?fs = [?fs ! (?k - 3), ?fs ! (?k - 2), ?fs ! (?k - 1)]"
  proof -
    have "drop (?k - 3) ?fs ! 0 = ?fs ! (?k - 3)" using k by simp
    moreover have "drop (?k - 3) ?fs ! 1 = ?fs ! (?k - 2)"
    proof -
      have "?k - 3 + 1 = ?k - 2" using k by arith
      moreover have "drop (?k - 3) ?fs ! 1 = ?fs ! (?k - 3 + 1)"
        using k by (simp del: One_nat_def)
      ultimately show ?thesis by simp
    qed
    moreover have "drop (?k - 3) ?fs ! 2 = ?fs ! (?k - 1)"
    proof -
      have "?k - 3 + 2 = ?k - 1" using k by arith
      moreover have "drop (?k - 3) ?fs ! 2 = ?fs ! (?k - 3 + 2)" using k by simp
      ultimately show ?thesis by simp
    qed
    ultimately show ?thesis using list_of_length_3 [OF l] by simp
  qed
  then show ?thesis using r by simp
qed

section \<open>Canonicalization of legacy Windows paths\<close>

lemma slice_1_3:
  "(take 2 (drop 1 p) = [CHR '':'', backslash] \<and> CHR ''/'' \<notin> set p) = drive_like_path p"
  by (cases p rule: drive_like_path.cases) (auto simp: numeral_2_eq_2)

lemma Canonicalize_path:
  "path (CanonicalizeLegacyWindowsPathSpec ps) =
     (if drive_like_path (path ps)
      then CHR ''/'' # map (\<lambda>x. if x = backslash then CHR ''/'' else x) (path ps)
      else path ps)"
  using slice_1_3 [of "path ps"]
  by (simp add: CanonicalizeLegacyWindowsPathSpec_def Let_def py_join_split del: One_nat_def)

lemma Canonicalize_other_fields:
  "CanonicalizeLegacyWindowsPathSpec ps =
     ps\<lparr>path := path (CanonicalizeLegacyWindowsPathSpec ps)\<rparr>"
  by (simp add: CanonicalizeLegacyWindowsPathSpec_def Let_def)

lemma Canonicalize_store:
  assumes "a < length h"
  shows "CanonicalizeLegacyWindowsPathSpec_store h a =
           (length h, h @ [CanonicalizeLegacyWindowsPathSpec (h ! a)])"
  using assms
  by (simp add: CanonicalizeLegacyWindowsPathSpec_store_def PathSpec_copy_def set_path_def
      CanonicalizeLegacyWindowsPathSpec_def Let_def nth_append del: One_nat_def)

lemma legacy_is_drive_like: "legacy_drive_path p \<Longrightarrow> drive_like_path p"
  by (cases p rule: legacy_drive_path.cases) simp_all

text \<open>
  Claim C4, as the code has it. The path is rewritten exactly when its second and third
  characters are a colon and a backslash and it holds no forward slash; the first
  character may be any character, a letter or not. In particular every path of the
  form letter, colon, backslash without a forward slash is rewritten. The rewritten
  path is a forward slash followed by the input with each backslash replaced by a
  forward slash and every other character kept; otherwise the path is the input's.
  The other fields are the input's. Over the object store, the result is a new object
  at a fresh address and every object that was there, the argument among them, is as
  it was.
\<close>

theorem Canonicalize_rewrites:
  "(legacy_drive_path (path ps) \<longrightarrow>
      path (CanonicalizeLegacyWindowsPathSpec ps) =
        CHR ''/'' # map (\<lambda>x. if x = backslash then CHR ''/'' else x) (path ps))
   \<and> ((path (CanonicalizeLegacyWindowsPathSpec ps) \<noteq> path ps) = drive_like_path (path ps))
   \<and> (drive_like_path (path ps) \<longrightarrow>
      path (CanonicalizeLegacyWindowsPathSpec ps) =
        CHR ''/'' # map (\<lambda>x. if x = backslash then CHR ''/'' else x) (path ps))
   \<and> CanonicalizeLegacyWindowsPathSpec ps
       = ps\<lparr>path := path (CanonicalizeLegacyWindowsPathSpec ps)\<rparr>
   \<and> (a < length h \<longrightarrow>
        CanonicalizeLegacyWindowsPathSpec_store h a =
          (length h, h @ [CanonicalizeLegacyWindowsPathSpec (h ! a)]))"
proof -
  have 1: "legacy_drive_path (path ps) \<longrightarrow>
      path (CanonicalizeLegacyWindowsPathSpec ps) =
        CHR ''/'' # map (\<lambda>x. if x = backslash then CHR ''/'' else x) (path ps)"
    using legacy_is_drive_like [of "path ps"] by (simp add: Canonicalize_path)
  have 2: "(path (CanonicalizeLegacyWindowsPathSpec ps) \<noteq> path ps)
             = drive_like_path (path ps)"
  proof (cases "drive_like_path (path ps)")
    case True
    have "length (CHR ''/'' # map (\<lambda>x. if x = backslash then CHR ''/'' else x) (path ps))
          \<noteq> length (path ps)" by simp
    then have "CHR ''/'' # map (\<lambda>x. if x = backslash then CHR ''/'' else x) (path ps)
                 \<noteq> path ps"
      by metis
    then show ?thesis using True by (simp add: Canonicalize_path)
  next
    case False
    then show ?thesis by (simp add: Canonicalize_path)
  qed
  have 3: "drive_like_path (path ps) \<longrightarrow>
      path (CanonicalizeLegacyWindowsPathSpec ps) =
        CHR ''/'' # map (\<lambda>x. if x = backslash then CHR ''/'' else x) (path ps)"
    by (simp add: Canonicalize_path)
  have 4: "CanonicalizeLegacyWindowsPathSpec ps
       = ps\<lparr>path := path (CanonicalizeLegacyWindowsPathSpec ps)\<rparr>"
    by (rule Canonicalize_other_fields)
  have 5: "a < length h \<longrightarrow>
        CanonicalizeLegacyWindowsPathSpec_store h a =
          (length h, h @ [CanonicalizeLegacyWindowsPathSpec (h ! a)])"
    by (simp add: Canonicalize_store)
  show ?thesis using 1 2 3 4 5 by blast
qed

theorem Canonicalize_rewrites_witness:
  "legacy_drive_path windows_path \<and> drive_like_path windows_path
   \<and> path (CanonicalizeLegacyWindowsPathSpec \<lparr>path = windows_path, pathtype = 0\<rparr>)
       = ''/C:/Windows/GRR''
   \<and> (0::nat) < length [\<lparr>path = windows_path, pathtype = 0\<rparr>]
   \<and> CanonicalizeLegacyWindowsPathSpec_store [\<lparr>path = windows_path, pathtype = 0\<rparr>] 0
       = (1, [\<lparr>path = windows_path, pathtype = 0\<rparr>,
              \<lparr>path = ''/C:/Windows/GRR'', pathtype = 0\<rparr>])"
  using Canonicalize_rewrites
    [of "\<lparr>path = windows_path, pathtype = 0\<rparr>" 0 "[\<lparr>path = windows_path, pathtype = 0\<rparr>]"]
  by (simp add: is_letter_def CanonicalizeLegacyWindowsPathSpec_def)

text \<open>
  The claim as stated fails where the first character is not a letter: such a path is
  not of the form the claim names, and is rewritten all the same.
\<close>

theorem Canonicalize_digit_counterexample:
  "\<not> legacy_drive_path digit_path
   \<and> path (CanonicalizeLegacyWindowsPathSpec \<lparr>path = digit_path, pathtype = 0\<rparr>)
       = ''/1:/x''
   \<and> path (CanonicalizeLegacyWindowsPathSpec \<lparr>path = digit_path, pathtype = 0\<rparr>)
       \<noteq> digit_path"
  by (simp add: CanonicalizeLegacyWindowsPathSpec_def is_letter_def)

text \<open>
  Claim C5. Canonicalizing twice gives what canonicalizing once gives, and a path
  specification whose path holds a forward slash is returned as it is.
\<close>

theorem Canonicalize_idempotent:
  "CanonicalizeLegacyWindowsPathSpec (CanonicalizeLegacyWindowsPathSpec ps)
     = CanonicalizeLegacyWindowsPathSpec ps
   \<and> (CHR ''/'' \<in> set (path ps) \<longrightarrow> CanonicalizeLegacyWindowsPathSpec ps = ps)"
  by (simp add: CanonicalizeLegacyWindowsPathSpec_def Let_def del: One_nat_def)

theorem Canonicalize_idempotent_witness:
  "CHR ''/'' \<in> set (path \<lparr>path = ''/tmp/proc_1_a_b.tmp'', pathtype = 0\<rparr>)
   \<and> CanonicalizeLegacyWindowsPathSpec \<lparr>path = ''/tmp/proc_1_a_b.tmp'', pathtype = 0\<rparr>
       = \<lparr>path = ''/tmp/proc_1_a_b.tmp'', pathtype = 0\<rparr>
   \<and> CanonicalizeLegacyWindowsPathSpec
        (CanonicalizeLegacyWindowsPathSpec \<lparr>path = windows_path, pathtype = 0\<rparr>)
       = \<lparr>path = ''/C:/Windows/GRR'', pathtype = 0\<rparr>"
  using Canonicalize_idempotent [of "\<lparr>path = ''/tmp/proc_1_a_b.tmp'', pathtype = 0\<rparr>"]
    Canonicalize_idempotent [of "\<lparr>path = windows_path, pathtype = 0\<rparr>"]
  by (simp add: CanonicalizeLegacyWindowsPathSpec_def)

section \<open>Migration of legacy dump files: what the loop body does\<close>


lemma MigrateDumpFile_well_formed:
  assumes "well_formed dump_file"
  shows "MigrateDumpFile info dump_file =
           Inr (info\<lparr>memory_regions := memory_regions info @ [legacy_region dump_file]\<rparr>)"
proof -
  let ?b = "Basename dump_file"
  let ?stem = "before_last (CHR ''.'') ?b"
  have ext: "CHR ''.'' \<in> set ?b"
    using assms by (simp add: well_formed_def has_extension_def)
  have len: "4 \<le> length (py_split (CHR ''_'') ?stem)"
    using assms by (simp add: well_formed_def legacy_fields_def)
  obtain v where v: "py_int16 (start_field dump_file) = Some v"
    using assms by (auto simp: well_formed_def)
  obtain w where w: "py_int16 (end_field dump_file) = Some w"
    using assms by (auto simp: well_formed_def)
  obtain a b where r: "py_rsplit (CHR ''_'') 3 ?stem =
      [a, b, start_field dump_file, end_field dump_file]"
    using py_rsplit_3_long [OF len]
    by (auto simp: start_field_def end_field_def legacy_fields_def)
  have u: "unpack2 (py_rsplit (CHR ''.'') 1 ?b) = Inr (?stem, after_last (CHR ''.'') ?b)"
    using ext by (simp only: py_rsplit_ext if_True unpack2.simps)
  show ?thesis
    unfolding MigrateDumpFile_def u
    by (simp add: r int16_def v w legacy_region_def startHex_def endHex_def)
qed


section \<open>Migration of legacy dump files: the loops\<close>

lemma MigrateDumpFiles_well_formed:
  "list_all well_formed dfs \<Longrightarrow>
   MigrateDumpFiles info dfs =
     (None, info\<lparr>memory_regions := memory_regions info @ map legacy_region dfs\<rparr>)"
  by (induction dfs arbitrary: info) (simp_all add: MigrateDumpFile_well_formed)


lemma MigrateInfo_well_formed:
  "list_all well_formed (dump_files info) \<Longrightarrow> MigrateInfo info = (None, migrated info)"
  by (simp add: MigrateInfo_def MigrateDumpFiles_well_formed migrated_def)


lemma MigrateProcesses_well_formed:
  "list_all (\<lambda>info. list_all well_formed (dump_files info)) infos \<Longrightarrow>
   MigrateProcesses infos = (None, map migrated infos)"
  by (induction infos) (simp_all add: MigrateInfo_well_formed)



section \<open>Migration of legacy dump files: the examples\<close>

lemma example_fields:
  "legacy_fields example_dump_file = [''proc'', ''1234'', ''1a00'', ''2000'']"
  by (simp add: legacy_fields_def Basename_def after_last_def before_last_def)

lemma example_start: "py_int16 ''1a00'' = Some 0x1a00"
  by (simp add: py_int16_def py_strip_def py_isspace_def hex_digit_value_def)

lemma example_end: "py_int16 ''2000'' = Some 0x2000"
  by (simp add: py_int16_def py_strip_def py_isspace_def hex_digit_value_def)

lemma example_well_formed: "well_formed example_dump_file"
  by (simp add: well_formed_def example_fields start_field_def end_field_def
      example_start example_end has_extension_def Basename_def after_last_def)

lemma example_region:
  "legacy_region example_dump_file =
     \<lparr>file_r = example_dump_file, start = 0x1a00, size_r = 0x600\<rparr>"
  by (simp add: legacy_region_def startHex_def endHex_def example_fields start_field_def
      end_field_def example_start example_end CanonicalizeLegacyWindowsPathSpec_def)

lemma example_migration:
  "MigrateLegacyDumpFilesToMemoryAreas example_response = (None, example_migrated_response)"
  by (simp add: MigrateLegacyDumpFilesToMemoryAreas_def MigrateInfo_def
      MigrateDumpFile_well_formed [OF example_well_formed] example_region)









section \<open>Unsigned base-16 numerals\<close>









text \<open>
  Claim C1. A dump file whose filename has an extension and, without it, splits at the
  underscores into at least four fields of which the last two are base-16 integers,
  makes the loop body append to the process's \<open>memory_regions\<close> one region: its file
  the canonicalized raw path, its start the parsed start field, its size the parsed
  end field minus the start. When every dump file of a response is of that form, the
  migration returns normally, every process has its regions followed by one region per
  dump file, in order, and every \<open>dump_files\<close> is empty afterwards.
\<close>

theorem legacy_migration:
  "(well_formed dump_file \<longrightarrow>
      MigrateDumpFile info dump_file =
        Inr (info\<lparr>memory_regions := memory_regions info @
               [\<lparr>file_r = CanonicalizeLegacyWindowsPathSpec dump_file,
                 start = startHex dump_file,
                 size_r = endHex dump_file - startHex dump_file\<rparr>]\<rparr>))
   \<and> (list_all (\<lambda>info. list_all well_formed (dump_files info)) (dumped_processes response)
      \<longrightarrow>
      MigrateLegacyDumpFilesToMemoryAreas response =
        (None, response\<lparr>dumped_processes := map migrated (dumped_processes response)\<rparr>)
      \<and> list_all (\<lambda>info. dump_files info = [])
           (dumped_processes (snd (MigrateLegacyDumpFilesToMemoryAreas response))))"
proof -
  have a: "well_formed dump_file \<longrightarrow>
      MigrateDumpFile info dump_file =
        Inr (info\<lparr>memory_regions := memory_regions info @
               [\<lparr>file_r = CanonicalizeLegacyWindowsPathSpec dump_file,
                 start = startHex dump_file,
                 size_r = endHex dump_file - startHex dump_file\<rparr>]\<rparr>)"
    using MigrateDumpFile_well_formed [of dump_file info] by (simp add: legacy_region_def)
  have b: "list_all (\<lambda>info. list_all well_formed (dump_files info))
             (dumped_processes response) \<longrightarrow>
      MigrateLegacyDumpFilesToMemoryAreas response =
        (None, response\<lparr>dumped_processes := map migrated (dumped_processes response)\<rparr>)"
    by (simp add: MigrateLegacyDumpFilesToMemoryAreas_def MigrateProcesses_well_formed)
  have c: "list_all (\<lambda>info. dump_files info = []) (map migrated infos)" for infos
    by (induction infos) (simp_all add: migrated_def)
  show ?thesis using a b c [of "dumped_processes response"] by simp
qed

theorem legacy_migration_witness:
  "well_formed example_dump_file
   \<and> list_all (\<lambda>info. list_all well_formed (dump_files info))
       (dumped_processes example_response)
   \<and> MigrateDumpFile
       \<lparr>process = example_process, dump_files = [example_dump_file], memory_regions = []\<rparr>
       example_dump_file =
       Inr \<lparr>process = example_process, dump_files = [example_dump_file],
            memory_regions =
              [\<lparr>file_r = example_dump_file, start = 0x1a00, size_r = 0x600\<rparr>]\<rparr>
   \<and> MigrateLegacyDumpFilesToMemoryAreas example_response =
       (None,
        \<lparr>dumped_processes =
           [\<lparr>process = example_process, dump_files = [],
             memory_regions =
               [\<lparr>file_r = example_dump_file, start = 0x1a00, size_r = 0x600\<rparr>]\<rparr>],
         errors = []\<rparr>)"
proof -
  have h: "list_all (\<lambda>info. list_all well_formed (dump_files info))
             (dumped_processes example_response)"
    by (simp add: example_well_formed)
  have r: "startHex example_dump_file = 0x1a00" "endHex example_dump_file = 0x2000"
    by (simp_all add: startHex_def endHex_def start_field_def end_field_def
        example_fields example_start example_end)
  have c: "CanonicalizeLegacyWindowsPathSpec example_dump_file = example_dump_file"
    by (simp add: CanonicalizeLegacyWindowsPathSpec_def)
  show ?thesis
    using legacy_migration
      [of example_dump_file
          "\<lparr>process = example_process, dump_files = [example_dump_file],
            memory_regions = []\<rparr>"
          example_response] h
    by (simp add: example_well_formed migrated_def example_region r c)
qed




section \<open>The scan flow\<close>

text \<open>
  Claim C9. A scan request whose signature compiles to no rule at all makes \<open>Start\<close>
  raise \<open>FlowError\<close>, "No rules found in the signature specification.", and the flow
  state is the one \<open>Start\<close> was entered with: no call to the client has been recorded.
\<close>

theorem YaraProcessScan_Start_no_rules:
  "GetRules (yara_signature args) = Inr [] \<Longrightarrow>
   YaraProcessScan_Start GetRules re_compile args st =
     (Some (FlowError ''No rules found in the signature specification.''), st)"
  by (simp add: YaraProcessScan_Start_def)

theorem YaraProcessScan_Start_no_rules_witness:
  "(\<lambda>s. Inr ([] :: string list)) (yara_signature example_scan_args)
     = (Inr [] :: error + string list)
   \<and> YaraProcessScan_Start (\<lambda>s. Inr ([] :: string list)) (\<lambda>r. None)
       example_scan_args empty_state
     = (Some (FlowError ''No rules found in the signature specification.''), empty_state)"
  using YaraProcessScan_Start_no_rules
    [of "\<lambda>s. Inr ([] :: string list)" example_scan_args "\<lambda>r. None" empty_state]
  by simp

lemma set_add_set: "set (set_add x xs) = insert x (set xs)"
  by (auto simp: set_add_def)

lemma set_add_distinct: "distinct xs \<Longrightarrow> distinct (set_add x xs)"
  by (simp add: set_add_def)

lemma fold_scan_match_calls:
  "calls (fst (fold (scan_match args) ms (st, P))) = calls st"
  by (induction ms arbitrary: st P) (simp_all add: scan_match_def SendReply_def)

lemma fold_scan_match_pids:
  "dump_process_on_match args \<Longrightarrow>
   set (snd (fold (scan_match args) ms (st, P))) =
     set P \<union> set (map (\<lambda>m. pid (YaraProcessScanMatch.process m)) ms)"
  by (induction ms arbitrary: st P) (auto simp: scan_match_def set_add_set)

lemma fold_scan_match_distinct:
  "distinct P \<Longrightarrow> distinct (snd (fold (scan_match args) ms (st, P)))"
  by (induction ms arbitrary: st P) (simp_all add: scan_match_def set_add_distinct)

lemma fold_send_calls:
  "calls (fold (\<lambda>x s. SendReply s (f x)) xs st) = calls st"
  by (induction xs arbitrary: st) (simp_all add: SendReply_def)

lemma scan_response_calls:
  "calls (fst (scan_response args r (st, P))) = calls st"
  using fold_scan_match_calls [of args "matches r" st P]
  by (cases "fold (scan_match args) (matches r) (st, P)")
     (simp add: scan_response_def Let_def fold_send_calls)

lemma scan_response_pids:
  "snd (scan_response args r (st, P)) = snd (fold (scan_match args) (matches r) (st, P))"
  by (cases "fold (scan_match args) (matches r) (st, P)")
     (simp add: scan_response_def Let_def)

lemma fold_scan_response_calls:
  "calls (fst (fold (scan_response args) rs (st, P))) = calls st"
proof (induction rs arbitrary: st P)
  case Nil
  show ?case by simp
next
  case (Cons r rs)
  obtain st1 P1 where s: "scan_response args r (st, P) = (st1, P1)"
    by (cases "scan_response args r (st, P)")
  have "calls st1 = calls st" using scan_response_calls [of args r st P] s by simp
  then show ?case using Cons.IH [of st1 P1] s by simp
qed

lemma fold_scan_response_pids:
  assumes "dump_process_on_match args"
  shows "set (snd (fold (scan_response args) rs (st, P))) = set P \<union> set (matched_pids rs)"
proof (induction rs arbitrary: st P)
  case Nil
  show ?case by (simp add: matched_pids_def)
next
  case (Cons r rs)
  obtain st1 P1 where s: "scan_response args r (st, P) = (st1, P1)"
    by (cases "scan_response args r (st, P)")
  have "set P1 = set P \<union> set (map (\<lambda>m. pid (YaraProcessScanMatch.process m)) (matches r))"
    using scan_response_pids [of args r st P] s
      fold_scan_match_pids [OF assms, of "matches r" st P]
    by simp
  then show ?case using Cons.IH [of st1 P1] s by (auto simp: matched_pids_def)
qed

lemma fold_scan_response_distinct:
  "distinct P \<Longrightarrow> distinct (snd (fold (scan_response args) rs (st, P)))"
proof (induction rs arbitrary: st P)
  case Nil
  then show ?case by simp
next
  case (Cons r rs)
  obtain st1 P1 where s: "scan_response args r (st, P) = (st1, P1)"
    by (cases "scan_response args r (st, P)")
  have "distinct P1"
    using scan_response_pids [of args r st P] s
      fold_scan_match_distinct [OF Cons.prems, of args "matches r" st] by simp
  then show ?case using Cons.IH [of P1 st1] s by simp
qed

lemma fold_SendReply:
  "fold (\<lambda>response st'. SendReply st' response) xs st = st\<lparr>replies := replies st @ xs\<rparr>"
  by (induction xs arbitrary: st) (simp_all add: SendReply_def)

lemma example_scan_run:
  "ProcessScanResults example_scan_args empty_state example_scan_responses =
     (None,
      \<lparr>replies = [ScanMatch (example_match 10), ScanMatch (example_match 20),
                  ScanMatch (example_match 10)],
       calls = [FlowCall ''DumpProcessMemory''
                  (DumpArgs \<lparr>pids = [10, 20], process_regex = [],
                     dump_all_processes = False, skip_special_regions = True,
                     skip_mapped_files = False, skip_shared_regions = True,
                     skip_executable_regions = False, skip_readonly_regions = True\<rparr>)
                  ''CheckDumpProcessMemoryResults''],
       logs = []\<rparr>)"
  by (simp add: ProcessScanResults_def scan_response_def scan_match_def set_add_def
      SendReply_def CallFlow_def)

text \<open>
  Claim C6. On a successful scan response with \<open>dump_process_on_match\<close> set, the calls
  \<open>ProcessScanResults\<close> adds are: none when no match contributed a pid, and otherwise
  exactly one, to the \<open>DumpProcessMemory\<close> flow, whose pids are without duplicates and
  are, as a set, the pids of all matches of all response units, and whose five
  region-skip flags are those of the scan request; the answer goes to
  \<open>CheckDumpProcessMemoryResults\<close>, which on success sends on every result of the
  child flow, in order.
\<close>

theorem ProcessScanResults_dump_on_match:
  assumes "success responses" and "dump_process_on_match args" and "success sub"
  shows "(\<exists>st' P. ProcessScanResults args st responses = (None, st')
            \<and> distinct P \<and> set P = set (matched_pids (items responses))
            \<and> calls st' = calls st @
                (if matched_pids (items responses) = [] then []
                 else [FlowCall ''DumpProcessMemory''
                         (DumpArgs
                            \<lparr>pids = P, process_regex = [], dump_all_processes = False,
                             skip_special_regions =
                               YaraProcessScanRequest.skip_special_regions args,
                             skip_mapped_files =
                               YaraProcessScanRequest.skip_mapped_files args,
                             skip_shared_regions =
                               YaraProcessScanRequest.skip_shared_regions args,
                             skip_executable_regions =
                               YaraProcessScanRequest.skip_executable_regions args,
                             skip_readonly_regions =
                               YaraProcessScanRequest.skip_readonly_regions args\<rparr>)
                         ''CheckDumpProcessMemoryResults'']))
         \<and> CheckDumpProcessMemoryResults st2 sub
             = (None, st2\<lparr>replies := replies st2 @ items sub\<rparr>)"
proof -
  obtain st1 P where f: "fold (scan_response args) (items responses) (st, []) = (st1, P)"
    by (cases "fold (scan_response args) (items responses) (st, [])")
  let ?dump = "DumpArgs
                 \<lparr>pids = P, process_regex = [], dump_all_processes = False,
                  skip_special_regions = YaraProcessScanRequest.skip_special_regions args,
                  skip_mapped_files = YaraProcessScanRequest.skip_mapped_files args,
                  skip_shared_regions = YaraProcessScanRequest.skip_shared_regions args,
                  skip_executable_regions =
                    YaraProcessScanRequest.skip_executable_regions args,
                  skip_readonly_regions =
                    YaraProcessScanRequest.skip_readonly_regions args\<rparr>"
  have d: "distinct P"
    using fold_scan_response_distinct [of "[]" args "items responses" st] f by simp
  have s: "set P = set (matched_pids (items responses))"
    using fold_scan_response_pids [OF assms(2), of "items responses" st "[]"] f by simp
  have c: "calls st1 = calls st"
    using fold_scan_response_calls [of args "items responses" st "[]"] f by simp
  have e: "(P = []) = (matched_pids (items responses) = [])"
    using s by (metis set_empty)
  have scan: "\<exists>st'. ProcessScanResults args st responses = (None, st')
            \<and> calls st' = calls st @
                (if matched_pids (items responses) = [] then []
                 else [FlowCall ''DumpProcessMemory'' ?dump
                         ''CheckDumpProcessMemoryResults''])"
  proof (cases "P = []")
    case True
    then show ?thesis
      using assms(1) f c e by (simp add: ProcessScanResults_def)
  next
    case False
    then have "ProcessScanResults args st responses =
      (None, CallFlow st1 ''DumpProcessMemory'' ?dump ''CheckDumpProcessMemoryResults'')"
      using assms(1) f by (simp add: ProcessScanResults_def)
    moreover have "calls (CallFlow st1 ''DumpProcessMemory'' ?dump
                            ''CheckDumpProcessMemoryResults'')
        = calls st @ [FlowCall ''DumpProcessMemory'' ?dump ''CheckDumpProcessMemoryResults'']"
      using c by (simp add: CallFlow_def)
    ultimately show ?thesis using False e by simp
  qed
  have check: "CheckDumpProcessMemoryResults st2 sub
             = (None, st2\<lparr>replies := replies st2 @ items sub\<rparr>)"
    using assms(3) by (simp add: CheckDumpProcessMemoryResults_def fold_SendReply)
  show ?thesis using scan d s check by blast
qed

theorem ProcessScanResults_dump_on_match_witness:
  "success example_scan_responses \<and> dump_process_on_match example_scan_args
   \<and> matched_pids (items example_scan_responses) = [10, 20, 10]
   \<and> calls (snd (ProcessScanResults example_scan_args empty_state example_scan_responses))
       = [FlowCall ''DumpProcessMemory''
            (DumpArgs \<lparr>pids = [10, 20], process_regex = [],
               dump_all_processes = False, skip_special_regions = True,
               skip_mapped_files = False, skip_shared_regions = True,
               skip_executable_regions = False, skip_readonly_regions = True\<rparr>)
            ''CheckDumpProcessMemoryResults'']
   \<and> CheckDumpProcessMemoryResults
       \<lparr>replies = [ScanMatch (example_match 10)], calls = [], logs = []\<rparr>
       \<lparr>success = True, status = [], items = [DumpResponse example_migrated_response]\<rparr>
       = (None,
          \<lparr>replies = [ScanMatch (example_match 10), DumpResponse example_migrated_response],
           calls = [], logs = []\<rparr>)"
  using ProcessScanResults_dump_on_match
    [of example_scan_responses example_scan_args
        "\<lparr>success = True, status = [], items = [DumpResponse example_migrated_response]\<rparr>"
        empty_state
        "\<lparr>replies = [ScanMatch (example_match 10)], calls = [], logs = []\<rparr>"]
  by (simp add: example_scan_run matched_pids_def)

section \<open>The dump flow\<close>

text \<open>
  Claim C3. A dump request that selects nothing (not all processes, no pid, no process
  regex) makes \<open>Start\<close> raise \<open>ValueError\<close>, "No processes to dump specified.", and the
  flow state is the one \<open>Start\<close> was entered with: no call to the client has been
  issued.
\<close>

theorem DumpProcessMemory_Start_no_target:
  "\<not> dump_all_processes args \<Longrightarrow> pids args = [] \<Longrightarrow> process_regex args = [] \<Longrightarrow>
   DumpProcessMemory_Start re_compile args st =
     (Some (ValueError ''No processes to dump specified.''), st)"
  by (simp add: DumpProcessMemory_Start_def)

theorem DumpProcessMemory_Start_no_target_witness:
  "DumpProcessMemory_Start (\<lambda>r. None)
     \<lparr>pids = [], process_regex = [], dump_all_processes = False,
      skip_special_regions = True, skip_mapped_files = False,
      skip_shared_regions = False, skip_executable_regions = False,
      skip_readonly_regions = False\<rparr>
     empty_state
   = (Some (ValueError ''No processes to dump specified.''), empty_state)"
  using DumpProcessMemory_Start_no_target
    [of "\<lparr>pids = [], process_regex = [], dump_all_processes = False,
          skip_special_regions = True, skip_mapped_files = False,
          skip_shared_regions = False, skip_executable_regions = False,
          skip_readonly_regions = False\<rparr>"
        "\<lambda>r. None" empty_state]
  by simp

subsection \<open>Logging\<close>

lemma py_format_percent_free:
  "CHR ''%'' \<notin> set s \<Longrightarrow> py_format Text s out = Inr (out @ s)"
  by (induction s arbitrary: out) auto

lemma logged_percent_free: "CHR ''%'' \<notin> set s \<Longrightarrow> logged s = Some s"
  by (simp add: logged_def percent_no_args_def py_format_percent_free)

lemma Log_logged:
  "logged line = Some message \<Longrightarrow> Log st line = (None, st\<lparr>logs := logs st @ [message]\<rparr>)"
  by (simp add: Log_def logged_def split: sum.splits)

lemma Log_replies: "replies (snd (Log st line)) = replies st"
  by (simp add: Log_def split: sum.splits)

lemma Log_calls: "calls (snd (Log st line)) = calls st"
  by (simp add: Log_def split: sum.splits)

lemma log_errors_replies: "replies (snd (log_errors es st)) = replies st"
proof (induction es arbitrary: st)
  case Nil
  show ?case by simp
next
  case (Cons e es)
  obtain x st' where l: "Log st (error_line e) = (x, st')"
    by (cases "Log st (error_line e)")
  have "replies st' = replies st" using Log_replies [of st "error_line e"] l by simp
  then show ?case using Cons [of st'] l by (cases x) simp_all
qed

lemma log_errors_logged:
  "list_all (\<lambda>l. logged l \<noteq> None) (map error_line es) \<Longrightarrow>
   log_errors es st =
     (None, st\<lparr>logs := logs st @ map (\<lambda>l. the (logged l)) (map error_line es)\<rparr>)"
proof (induction es arbitrary: st)
  case Nil
  show ?case by simp
next
  case (Cons e es)
  then obtain m where m: "logged (error_line e) = Some m" by auto
  have rest: "list_all (\<lambda>l. logged l \<noteq> None) (map error_line es)"
    using Cons.prems by simp
  show ?case
    using Cons.IH [OF rest, of "st\<lparr>logs := logs st @ [m]\<rparr>"] Log_logged [OF m, of st] m
    by simp
qed

lemma collect_files_replies:
  "replies (fst (snd (collect_files ps st fs))) = replies st"
proof (induction ps arbitrary: st fs)
  case Nil
  show ?case by simp
next
  case (Cons p ps)
  obtain x st' where l: "Log st (process_line p) = (x, st')"
    by (cases "Log st (process_line p)")
  have "replies st' = replies st" using Log_replies [of st "process_line p"] l by simp
  then show ?case
    using Cons [of st' "fold (\<lambda>region files. files @ [file_r region]) (memory_regions p) fs"] l
    by (cases x) simp_all
qed

lemma fold_append_files:
  "fold (\<lambda>region files. files @ [file_r region]) rs acc = acc @ map file_r rs"
  by (induction rs arbitrary: acc) simp_all

lemma collect_files_logged:
  "list_all (\<lambda>l. logged l \<noteq> None) (map process_line ps) \<Longrightarrow>
   collect_files ps st fs =
     (None,
      st\<lparr>logs := logs st @ map (\<lambda>l. the (logged l)) (map process_line ps)\<rparr>,
      fs @ concat (map (\<lambda>p. map file_r (memory_regions p)) ps))"
proof (induction ps arbitrary: st fs)
  case Nil
  show ?case by simp
next
  case (Cons p ps)
  then obtain m where m: "logged (process_line p) = Some m" by auto
  have rest: "list_all (\<lambda>l. logged l \<noteq> None) (map process_line ps)"
    using Cons.prems by simp
  show ?case
    using Cons.IH [OF rest, of "st\<lparr>logs := logs st @ [m]\<rparr>" "fs @ map file_r (memory_regions p)"]
      Log_logged [OF m, of st] m
    by (simp add: fold_append_files)
qed

lemma ProcessResults_replies:
  assumes "success responses" and "items responses = r # rest"
    and "MigrateLegacyDumpFilesToMemoryAreas r = (None, r')"
  shows "replies (snd (ProcessResults st responses)) = replies st @ [DumpResponse r']"
proof -
  let ?st1 = "SendReply st (DumpResponse r')"
  obtain x st2 where a: "log_errors (YaraProcessDumpResponse.errors r') ?st1 = (x, st2)"
    by (cases "log_errors (YaraProcessDumpResponse.errors r') ?st1")
  have r2: "replies st2 = replies st @ [DumpResponse r']"
    using log_errors_replies [of "YaraProcessDumpResponse.errors r'" ?st1] a
    by (simp add: SendReply_def)
  obtain y st3 fs where b: "collect_files (dumped_processes r') st2 [] = (y, st3, fs)"
    by (cases "collect_files (dumped_processes r') st2 []") auto
  have r3: "replies st3 = replies st @ [DumpResponse r']"
    using collect_files_replies [of "dumped_processes r'" st2 "[]"] b r2 by simp
  have r4: "replies (snd (Log st3 ''No memory dumped, exiting.'')) = replies st @ [DumpResponse r']"
    using Log_replies [of st3] r3 by simp
  show ?thesis
  proof (cases x)
    case (Some e)
    then show ?thesis using assms a r2 by (simp add: ProcessResults_def First_def)
  next
    case None
    note xn = this
    show ?thesis
    proof (cases y)
      case (Some e)
      then show ?thesis using assms a b xn r3 by (simp add: ProcessResults_def First_def)
    next
      case None
      then show ?thesis
        using assms a b xn r3 r4
        by (simp add: ProcessResults_def First_def CallFlow_def)
    qed
  qed
qed

lemma ProcessResults_completes:
  assumes "success responses" and "items responses = r # rest"
    and "MigrateLegacyDumpFilesToMemoryAreas r = (None, r')"
    and "list_all (\<lambda>l. logged l \<noteq> None) (log_lines r')"
  shows "ProcessResults st responses =
     (None,
      st\<lparr>replies := replies st @ [DumpResponse r'],
         logs := logs st @ map (\<lambda>l. the (logged l)) (log_lines r')
                 @ (if file_locators r' = [] then [''No memory dumped, exiting.''] else []),
         calls := calls st @
           (if file_locators r' = [] then []
            else [FlowCall ''MultiGetFile''
                    (GetFiles \<lparr>pathspecs = file_locators r', file_size = 2 ^ 30,
                               use_external_stores = False\<rparr>)
                    ''DeleteFiles''])\<rparr>)"
proof -
  define st1 where "st1 = SendReply st (DumpResponse r')"
  define st2 where "st2 = st1\<lparr>logs := logs st1 @ map (\<lambda>l. the (logged l))
                 (map error_line (YaraProcessDumpResponse.errors r'))\<rparr>"
  define st3 where "st3 = st2\<lparr>logs := logs st2 @ map (\<lambda>l. the (logged l))
                 (map process_line (dumped_processes r'))\<rparr>"
  have e: "list_all (\<lambda>l. logged l \<noteq> None) (map error_line (YaraProcessDumpResponse.errors r'))"
    and p: "list_all (\<lambda>l. logged l \<noteq> None) (map process_line (dumped_processes r'))"
    using assms(4) by (simp_all add: log_lines_def)
  have a: "log_errors (YaraProcessDumpResponse.errors r') st1 = (None, st2)"
    unfolding st2_def by (rule log_errors_logged [OF e])
  have b: "collect_files (dumped_processes r') st2 [] = (None, st3, file_locators r')"
    unfolding st3_def
    using collect_files_logged [OF p, of st2 "[]"] by (simp add: file_locators_def)
  have n: "Log st3 ''No memory dumped, exiting.'' =
      (None, st3\<lparr>logs := logs st3 @ [''No memory dumped, exiting.'']\<rparr>)"
    by (rule Log_logged) (simp add: logged_percent_free)
  have k: "(1024 * 1024 * 1024 :: nat) = 2 ^ 30" by simp
  have "ProcessResults st responses =
      (if file_locators r' = []
       then (None, st3\<lparr>logs := logs st3 @ [''No memory dumped, exiting.'']\<rparr>)
       else (None,
             CallFlow st3 ''MultiGetFile''
               (GetFiles \<lparr>pathspecs = file_locators r', file_size = 2 ^ 30,
                          use_external_stores = False\<rparr>)
               ''DeleteFiles''))"
    using assms(1,2,3)
    by (simp add: ProcessResults_def First_def st1_def [symmetric] a b n k
        del: One_nat_def)
  then show ?thesis
    by (simp add: st3_def st2_def st1_def CallFlow_def SendReply_def log_lines_def)
qed

lemma example_process_line:
  "process_line
     \<lparr>process = example_process, dump_files = [],
      memory_regions = [\<lparr>file_r = example_dump_file, start = 0x1a00, size_r = 0x600\<rparr>]\<rparr>
   = ''Getting 1 dump files for process proc (pid 1234).''"
  by (simp add: process_line_def)

lemma example_log_lines:
  "log_lines example_migrated_response =
     [''Getting 1 dump files for process proc (pid 1234).'']"
  by (simp add: log_lines_def example_process_line)

lemma example_logged:
  "logged ''Getting 1 dump files for process proc (pid 1234).''
     = Some ''Getting 1 dump files for process proc (pid 1234).''"
  by (rule logged_percent_free) simp

lemma percent_error_line:
  "error_line \<lparr>ProcessMemoryError.process = \<lparr>pid = 7, name = ''svc'', exe = ''/bin/svc''\<rparr>,
               error = ''100% bad''\<rparr>
   = ''Error dumping process svc (pid 7): 100% bad''"
  by (simp add: error_line_def)

lemma percent_line_raises:
  "percent_no_args ''Error dumping process svc (pid 7): 100% bad''
     = Inl (TypeError ''not enough arguments for format string'')"
  by (simp add: percent_no_args_def start_step_def flags_step_def width_start_step_def
      prec_start_step_def len_step_def conv_step_def not_enough_arguments_def is_digit_def)

lemma percent_migration:
  "MigrateLegacyDumpFilesToMemoryAreas percent_response = (None, percent_response)"
  by (simp add: MigrateLegacyDumpFilesToMemoryAreas_def MigrateInfo_def)

text \<open>
  Claim C7 says that a successful dump response whose unit has file locators ends in
  exactly one call to the \<open>MultiGetFile\<close> flow. On the unit below, whose one error
  entry has a percent sign in its text, the code sends the unit and then raises
  \<open>TypeError\<close> from \<open>Log\<close>, which takes the line already formatted as a format
  string; no call is issued although the unit has a file locator.
\<close>

theorem ProcessResults_percent_in_error_text:
  "ProcessResults empty_state \<lparr>success = True, status = [], items = [percent_response]\<rparr>
   = (Some (TypeError ''not enough arguments for format string''),
      \<lparr>replies = [DumpResponse percent_response], calls = [], logs = []\<rparr>)"
  by (simp add: ProcessResults_def First_def percent_migration percent_error_line
      Log_def percent_line_raises SendReply_def)

text \<open>
  Claim C10. Of a batch of several response units \<open>ProcessResults\<close> reads the first
  only. What it raises, sends, calls and logs is what it does on the batch cut down to
  its first unit, whatever the units after it hold. When the first unit migrates
  without an exception, the replies grow by exactly the migrated first unit. When
  moreover \<open>Log\<close> takes every line, the handler returns normally, the log grows by
  the lines of the first unit's errors and dumped processes (and by "No memory dumped,
  exiting." when it has no file locator), and the calls grow by nothing or by the one
  call to \<open>MultiGetFile\<close> for the first unit's file locators.
\<close>

theorem ProcessResults_first_unit_only:
  "ProcessResults st (responses\<lparr>items := r # rest\<rparr>)
     = ProcessResults st (responses\<lparr>items := [r]\<rparr>)
   \<and> (success responses \<and> MigrateLegacyDumpFilesToMemoryAreas r = (None, r') \<longrightarrow>
        replies (snd (ProcessResults st (responses\<lparr>items := r # rest\<rparr>)))
          = replies st @ [DumpResponse r'])
   \<and> (success responses \<and> MigrateLegacyDumpFilesToMemoryAreas r = (None, r')
        \<and> list_all (\<lambda>l. logged l \<noteq> None) (log_lines r') \<longrightarrow>
        ProcessResults st (responses\<lparr>items := r # rest\<rparr>) =
          (None,
           st\<lparr>replies := replies st @ [DumpResponse r'],
              logs := logs st @ map (\<lambda>l. the (logged l)) (log_lines r')
                      @ (if file_locators r' = [] then [''No memory dumped, exiting.'']
                         else []),
              calls := calls st @
                (if file_locators r' = [] then []
                 else [FlowCall ''MultiGetFile''
                         (GetFiles \<lparr>pathspecs = file_locators r', file_size = 2 ^ 30,
                                    use_external_stores = False\<rparr>)
                         ''DeleteFiles''])\<rparr>))"
proof -
  have 1: "ProcessResults st (responses\<lparr>items := r # rest\<rparr>)
     = ProcessResults st (responses\<lparr>items := [r]\<rparr>)"
    by (simp add: ProcessResults_def First_def)
  have 2: "replies (snd (ProcessResults st (responses\<lparr>items := r # rest\<rparr>)))
          = replies st @ [DumpResponse r']"
    if "success responses" "MigrateLegacyDumpFilesToMemoryAreas r = (None, r')"
    using ProcessResults_replies [of "responses\<lparr>items := r # rest\<rparr>" r rest r' st] that
    by simp
  have 3: "ProcessResults st (responses\<lparr>items := r # rest\<rparr>) =
          (None,
           st\<lparr>replies := replies st @ [DumpResponse r'],
              logs := logs st @ map (\<lambda>l. the (logged l)) (log_lines r')
                      @ (if file_locators r' = [] then [''No memory dumped, exiting.'']
                         else []),
              calls := calls st @
                (if file_locators r' = [] then []
                 else [FlowCall ''MultiGetFile''
                         (GetFiles \<lparr>pathspecs = file_locators r', file_size = 2 ^ 30,
                                    use_external_stores = False\<rparr>)
                         ''DeleteFiles''])\<rparr>)"
    if "success responses" "MigrateLegacyDumpFilesToMemoryAreas r = (None, r')"
      "list_all (\<lambda>l. logged l \<noteq> None) (log_lines r')"
    using ProcessResults_completes [of "responses\<lparr>items := r # rest\<rparr>" r rest r' st] that
    by simp
  show ?thesis using 1 2 3 by blast
qed

theorem ProcessResults_first_unit_only_witness:
  "MigrateLegacyDumpFilesToMemoryAreas example_response = (None, example_migrated_response)
   \<and> list_all (\<lambda>l. logged l \<noteq> None) (log_lines example_migrated_response)
   \<and> ProcessResults empty_state
       \<lparr>success = True, status = [], items = [example_response, partial_response]\<rparr>
     = (None,
        \<lparr>replies = [DumpResponse example_migrated_response],
         calls = [FlowCall ''MultiGetFile''
                    (GetFiles \<lparr>pathspecs = [example_dump_file], file_size = 2 ^ 30,
                               use_external_stores = False\<rparr>)
                    ''DeleteFiles''],
         logs = [''Getting 1 dump files for process proc (pid 1234).'']\<rparr>)"
proof -
  have l: "list_all (\<lambda>l. logged l \<noteq> None) (log_lines example_migrated_response)"
    by (simp add: example_log_lines example_logged)
  have f: "file_locators example_migrated_response = [example_dump_file]"
    by (simp add: file_locators_def)
  note t = ProcessResults_first_unit_only
      [where st = empty_state
         and responses = "\<lparr>success = True, status = [], items = []\<rparr>"
         and r = example_response and rest = "[partial_response]"
         and r' = example_migrated_response]
  have "ProcessResults empty_state
       \<lparr>success = True, status = [], items = [example_response, partial_response]\<rparr>
     = (None,
        \<lparr>replies = [DumpResponse example_migrated_response],
         calls = [FlowCall ''MultiGetFile''
                    (GetFiles \<lparr>pathspecs = [example_dump_file], file_size = 2 ^ 30,
                               use_external_stores = False\<rparr>)
                    ''DeleteFiles''],
         logs = [''Getting 1 dump files for process proc (pid 1234).'']\<rparr>)"
    using t [THEN conjunct2, THEN conjunct2] example_migration l f
    by (simp add: example_log_lines example_logged)
  then show ?thesis using example_migration l by simp
qed


text \<open>
  Claim C8. A deletion acknowledgement that reports failure makes \<open>LogDeleteFiles\<close>
  raise \<open>FlowError\<close> with "Could not delete file: " followed by the status, whatever
  the flow has sent, called or logged so far, so whatever became of the other delete
  requests.
\<close>

theorem LogDeleteFiles_failure_raises:
  "\<not> success responses \<Longrightarrow>
   LogDeleteFiles st responses =
     (Some (FlowError (''Could not delete file: '' @ status responses)), st)"
  by (simp add: LogDeleteFiles_def)

theorem LogDeleteFiles_failure_raises_witness:
  "\<not> success \<lparr>success = False, status = ''timeout'', items = [] :: unit list\<rparr>
   \<and> LogDeleteFiles two_deletions_state
       \<lparr>success = False, status = ''timeout'', items = [] :: unit list\<rparr>
     = (Some (FlowError ''Could not delete file: timeout''), two_deletions_state)"
  using LogDeleteFiles_failure_raises
    [of "\<lparr>success = False, status = ''timeout'', items = [] :: unit list\<rparr>"
        two_deletions_state]
  by simp

end
